theory Spec2Isabelle
  imports
    Main
    "HOL-Library.Multiset"
    "HOL-Library.Char_ord"
    "HOL-Library.List_Lexorder"
begin

section \<open>Strings\<close>

text \<open>
  A Go string is a sequence of bytes; it is modelled as \<^typ>\<open>string\<close>. Go compares
  strings byte by byte, which is the lexicographic order on \<^typ>\<open>char list\<close>.
\<close>

definition is_upper :: "char \<Rightarrow> bool" where
  "is_upper c \<longleftrightarrow> (65::nat) \<le> of_char c \<and> of_char c \<le> (90::nat)"

definition is_lower :: "char \<Rightarrow> bool" where
  "is_lower c \<longleftrightarrow> (97::nat) \<le> of_char c \<and> of_char c \<le> (122::nat)"

definition is_digit :: "char \<Rightarrow> bool" where
  "is_digit c \<longleftrightarrow> (48::nat) \<le> of_char c \<and> of_char c \<le> (57::nat)"

definition lower_letters :: string where
  "lower_letters = ''abcdefghijklmnopqrstuvwxyz''"

definition upper_letters :: string where
  "upper_letters = ''ABCDEFGHIJKLMNOPQRSTUVWXYZ''"

definition lower_char :: "char \<Rightarrow> char" where
  "lower_char c = (case map_of (zip upper_letters lower_letters) c of Some l \<Rightarrow> l | None \<Rightarrow> c)"

definition upper_char :: "char \<Rightarrow> char" where
  "upper_char c = (case map_of (zip lower_letters upper_letters) c of Some u \<Rightarrow> u | None \<Rightarrow> c)"

text \<open>
  \<open>strings.ToLower\<close>. ASCII letters are lowered byte by byte. Two runes outside ASCII
  have an ASCII lower case: U+212A (Kelvin sign, bytes E2 84 AA) becomes \<open>k\<close> and U+0130
  (bytes C4 B0) becomes \<open>i\<close>. Every other byte from 0x80 on is copied: Go lowers further
  cased letters there to runes that are again outside ASCII, so comparing the result with
  an ASCII word gives the same answer in the model and in Go.
\<close>

fun ToLower :: "string \<Rightarrow> string" where
  "ToLower (a # b # c # cs) =
     (if a = CHR 0xE2 \<and> b = CHR 0x84 \<and> c = CHR 0xAA then CHR ''k'' # ToLower cs
      else if a = CHR 0xC4 \<and> b = CHR 0xB0 then CHR ''i'' # ToLower (c # cs)
      else lower_char a # ToLower (b # c # cs))"
| "ToLower [a, b] =
     (if a = CHR 0xC4 \<and> b = CHR 0xB0 then [CHR ''i'']
      else lower_char a # ToLower [b])"
| "ToLower [a] = [lower_char a]"
| "ToLower [] = []"

text \<open>
  \<open>strings.Title\<close>: the first letter of every word is put in title case, a word
  starting after a separator. ASCII letters, digits and the underscore are no separators,
  every other ASCII byte is one. Bytes from 0x80 on are copied and count as letters (Go
  consults the Unicode tables there).
\<close>

definition isSeparator :: "char \<Rightarrow> bool" where
  "isSeparator c \<longleftrightarrow>
     (of_char c :: nat) \<le> 0x7F \<and> \<not> (is_digit c \<or> is_lower c \<or> is_upper c \<or> c = CHR ''_'')"

fun Title_from :: "char \<Rightarrow> string \<Rightarrow> string" where
  "Title_from prev [] = []"
| "Title_from prev (c # cs) =
     (if isSeparator prev then upper_char c else c) # Title_from c cs"

definition Title :: "string \<Rightarrow> string" where
  "Title s = Title_from (CHR '' '') s"

text \<open>Decimal rendering of integers, as \<open>%v\<close> and \<open>%d\<close> print them.\<close>

definition digit_char :: "nat \<Rightarrow> char" where
  "digit_char d = ''0123456789'' ! d"

fun nat_to_string :: "nat \<Rightarrow> string" where
  "nat_to_string n =
     (if n < 10 then [digit_char n] else nat_to_string (n div 10) @ [digit_char (n mod 10)])"

declare nat_to_string.simps [simp del]

definition int_to_string :: "int \<Rightarrow> string" where
  "int_to_string i = (if i < 0 then CHR ''-'' # nat_to_string (nat (- i)) else nat_to_string (nat i))"

datatype error = Error string

section \<open>Output formatter (internal/output/formatter.go)\<close>

subsection \<open>Values and records\<close>

text \<open>
  The values a record holds, as far as \<open>fmt.Sprintf("%v", v)\<close> tells them apart: a string
  prints as itself, a bool as \<open>true\<close> or \<open>false\<close>, an integer in decimal, the nil
  interface (also what a lookup of a missing key gives) as \<open><nil>\<close>. Any other Go value
  is carried with its \<open>%v\<close> text.
\<close>

datatype val = VNil | VString string | VInt int | VBool bool | VOther string

fun sprint_v :: "val \<Rightarrow> string" where
  "sprint_v VNil = ''<nil>''"
| "sprint_v (VString s) = s"
| "sprint_v (VInt i) = int_to_string i"
| "sprint_v (VBool b) = (if b then ''true'' else ''false'')"
| "sprint_v (VOther s) = s"

text \<open>
  A \<open>map[string]interface{}\<close> is an association list whose keys are distinct
  (\<open>wf_map\<close>). The order of the list carries no meaning: Go looks keys up, and where it
  ranges over a map the order is chosen by the runtime (see \<open>range_values\<close>).
\<close>

type_synonym gomap = "(string \<times> val) list"


definition index :: "gomap \<Rightarrow> string \<Rightarrow> val" where
  "index m k = (case map_of m k of None \<Rightarrow> VNil | Some v \<Rightarrow> v)"

text \<open>\<open>m[k] = v\<close>\<close>

fun assign :: "string \<Rightarrow> 'v \<Rightarrow> (string \<times> 'v) list \<Rightarrow> (string \<times> 'v) list" where
  "assign k v [] = [(k, v)]"
| "assign k v ((k', v') # m) = (if k = k' then (k, v) # m else (k', v') # assign k v m)"

subsection \<open>The domain types the formatter knows (internal/models/types.go)\<close>

text \<open>\<open>time.Time\<close> fields are kept as their printed text; the formatter never reads them.\<close>

type_synonym Time = string

record Organization =
  org_ID :: string
  org_Name :: string
  org_CreatedAt :: Time
  org_UpdatedAt :: Time

record OrganizationMembershipResponse =
  om_Organization :: Organization
  om_Role :: string
  om_IsDefault :: bool

record Project =
  prj_ID :: string
  prj_OrganizationID :: string
  prj_Name :: string
  prj_Description :: "string option"
  prj_MaxTenants :: int
  prj_MaxCompute :: int
  prj_MaxMemoryGB :: int
  prj_CreatedAt :: Time
  prj_UpdatedAt :: Time

record ProjectMembership =
  pm_Project :: Project
  pm_Role :: string
  pm_CreatedAt :: Time

record Tenant =
  tn_ID :: string
  tn_ProjectID :: string
  tn_OrganizationID :: string
  tn_HostClusterID :: string
  tn_Name :: string
  tn_CloudProvider :: string
  tn_Region :: string
  tn_LocationShort :: string
  tn_KubernetesVersion :: string
  tn_ComputeQuota :: int
  tn_MemoryQuotaGB :: int
  tn_Status :: string
  tn_Namespace :: string
  tn_CreatedAt :: Time
  tn_UpdatedAt :: Time

record KubernetesVersion =
  kv_Version :: string
  kv_IsDefault :: bool

record Location =
  loc_CloudProvider :: string
  loc_Region :: string
  loc_Zone :: string

text \<open>
  One field of a struct of any other type, as reflection shows it: its Go name, whether
  it is exported, its \<open>json\<close> tag and its value.
\<close>

record field =
  fld_Name :: string
  fld_exported :: bool
  fld_jsonTag :: string
  fld_value :: val

datatype other = OStruct "field list" | ONoStruct string

text \<open>
  What \<open>FormatData\<close> can be handed, as far as \<open>convertToRecords\<close> distinguishes it.
  An item is a value of one of the known struct types, a pointer to one (\<open>None\<close> is the
  nil pointer), a map, or a value of any other type: a struct (or non-nil pointer to one) given by its
  fields, or something that is no struct at all, given by the name of its \<open>reflect.Kind\<close>
  (a number, a string; \<open>invalid\<close> for a nil pointer).
\<close>

datatype item =
    IOrgMembership OrganizationMembershipResponse
  | IOrgMembershipPtr "OrganizationMembershipResponse option"
  | IProjectMembership ProjectMembership
  | IProjectMembershipPtr "ProjectMembership option"
  | IOrganization Organization
  | IOrganizationPtr "Organization option"
  | IProject Project
  | IProjectPtr "Project option"
  | ILocation Location
  | ILocationPtr "Location option"
  | IKubernetesVersion KubernetesVersion
  | IKubernetesVersionPtr "KubernetesVersion option"
  | ITenant Tenant
  | ITenantPtr "Tenant option"
  | IMap gomap
  | IOther other

text \<open>
  The argument of \<open>FormatData\<close> after the pointer, if any, is followed: a slice of items,
  a single struct value, or a value of another kind (a map, a scalar, nil).
\<close>

datatype data = DSlice "item list" | DStruct item | DOther

subsection \<open>convertToRecords and structToMap\<close>

definition orgMembershipRecord :: "OrganizationMembershipResponse \<Rightarrow> gomap" where
  "orgMembershipRecord m =
     [(''organization'', VString (org_Name (om_Organization m))),
      (''role'', VString (om_Role m)),
      (''is_default'', VBool (om_IsDefault m))]"

definition projectMembershipRecord :: "ProjectMembership \<Rightarrow> gomap" where
  "projectMembershipRecord m =
     [(''project'', VString (prj_Name (pm_Project m))),
      (''role'', VString (pm_Role m))]"

definition organizationRecord :: "Organization \<Rightarrow> gomap" where
  "organizationRecord m = [(''id'', VString (org_ID m)), (''name'', VString (org_Name m))]"

definition projectRecord :: "Project \<Rightarrow> gomap" where
  "projectRecord m =
     [(''id'', VString (prj_ID m)),
      (''name'', VString (prj_Name m)),
      (''organization_id'', VString (prj_OrganizationID m))]"

definition locationRecord :: "Location \<Rightarrow> gomap" where
  "locationRecord m =
     [(''cloud_provider'', VString (loc_CloudProvider m)),
      (''region'', VString (loc_Region m)),
      (''zone'', VString (loc_Zone m))]"

definition kubernetesVersionRecord :: "KubernetesVersion \<Rightarrow> gomap" where
  "kubernetesVersionRecord m =
     [(''version'', VString (kv_Version m)), (''is_default'', VBool (kv_IsDefault m))]"

definition tenantRecord :: "Tenant \<Rightarrow> gomap" where
  "tenantRecord m =
     [(''name'', VString (tn_Name m)),
      (''cloud_provider'', VString (tn_CloudProvider m)),
      (''region'', VString (tn_Region m)),
      (''kubernetes_version'', VString (tn_KubernetesVersion m)),
      (''compute_quota'', VInt (tn_ComputeQuota m)),
      (''memory_quota_gb'', VInt (tn_MemoryQuotaGB m)),
      (''status'', VString (tn_Status m))]"

text \<open>
  The loop of \<open>structToMap\<close> over the fields: unexported fields and fields whose
  \<open>json\<close> tag is empty or \<open>-\<close> are skipped; the key is the tag up to its first comma, or
  the Go name when that is empty.
\<close>

fun structFields :: "field list \<Rightarrow> gomap \<Rightarrow> gomap" where
  "structFields [] result = result"
| "structFields (f # fs) result =
     (if \<not> fld_exported f then structFields fs result
      else if fld_jsonTag f = [] \<or> fld_jsonTag f = ''-'' then structFields fs result
      else let jsonName = takeWhile (\<lambda>c. c \<noteq> CHR '','') (fld_jsonTag f);
               jsonName = (if jsonName = [] then fld_Name f else jsonName)
           in structFields fs (assign jsonName (fld_value f) result))"

fun structToMap :: "other \<Rightarrow> error + gomap" where
  "structToMap (OStruct fs) = Inr (structFields fs [])"
| "structToMap (ONoStruct kind) = Inl (Error (''expected struct, got '' @ kind))"

text \<open>
  One item of a slice, as the type switch of \<open>convertToRecords\<close> treats it: \<open>Some\<close> record to
  append, \<open>None\<close> for a nil pointer to a known type (nothing is appended).
\<close>

fun itemRecord :: "item \<Rightarrow> error + gomap option" where
  "itemRecord (IOrgMembership m) = Inr (Some (orgMembershipRecord m))"
| "itemRecord (IOrgMembershipPtr p) = Inr (map_option orgMembershipRecord p)"
| "itemRecord (IProjectMembership m) = Inr (Some (projectMembershipRecord m))"
| "itemRecord (IProjectMembershipPtr p) = Inr (map_option projectMembershipRecord p)"
| "itemRecord (IOrganization m) = Inr (Some (organizationRecord m))"
| "itemRecord (IOrganizationPtr p) = Inr (map_option organizationRecord p)"
| "itemRecord (IProject m) = Inr (Some (projectRecord m))"
| "itemRecord (IProjectPtr p) = Inr (map_option projectRecord p)"
| "itemRecord (ILocation m) = Inr (Some (locationRecord m))"
| "itemRecord (ILocationPtr p) = Inr (map_option locationRecord p)"
| "itemRecord (IKubernetesVersion m) = Inr (Some (kubernetesVersionRecord m))"
| "itemRecord (IKubernetesVersionPtr p) = Inr (map_option kubernetesVersionRecord p)"
| "itemRecord (ITenant m) = Inr (Some (tenantRecord m))"
| "itemRecord (ITenantPtr p) = Inr (map_option tenantRecord p)"
| "itemRecord (IMap m) = Inr (Some m)"
| "itemRecord (IOther x) = (case structToMap x of Inl e \<Rightarrow> Inl e | Inr r \<Rightarrow> Inr (Some r))"

text \<open>The loop over the slice: the first error ends it.\<close>

fun sliceRecords :: "item list \<Rightarrow> gomap list \<Rightarrow> error + gomap list" where
  "sliceRecords [] records = Inr records"
| "sliceRecords (x # xs) records =
     (case itemRecord x of
        Inl e \<Rightarrow> Inl e
      | Inr None \<Rightarrow> sliceRecords xs records
      | Inr (Some r) \<Rightarrow> sliceRecords xs (records @ [r]))"

text \<open>
  The struct branch: its type switch has the cases of the slice branch; a nil pointer
  gives no records and no error. (After \<open>Elem\<close> the value is a struct, so Go never
  takes the pointer and map cases there.)
\<close>

fun structRecords :: "item \<Rightarrow> error + gomap list" where
  "structRecords (IOther x) = (case structToMap x of Inl e \<Rightarrow> Inl e | Inr r \<Rightarrow> Inr [r])"
| "structRecords x =
     (case itemRecord x of
        Inl e \<Rightarrow> Inl e
      | Inr None \<Rightarrow> Inr []
      | Inr (Some r) \<Rightarrow> Inr [r])"

fun convertToRecords :: "data \<Rightarrow> error + gomap list" where
  "convertToRecords (DSlice xs) = sliceRecords xs []"
| "convertToRecords (DStruct x) = structRecords x"
| "convertToRecords DOther = Inl (Error ''unsupported data type for table/CSV formatting'')"

subsection \<open>Header order\<close>

definition hasKeys :: "gomap \<Rightarrow> string list \<Rightarrow> bool" where
  "hasKeys m keys = list_all (\<lambda>k. map_of m k \<noteq> None) keys"

definition getOrderedHeadersFromRecord :: "gomap \<Rightarrow> string list" where
  "getOrderedHeadersFromRecord record =
     (if hasKeys record [''organization'', ''role'', ''is_default'']
      then [''organization'', ''role'', ''is_default'']
      else if hasKeys record [''cloud_provider'', ''region'', ''zone'']
      then [''cloud_provider'', ''region'', ''zone'']
      else if hasKeys record [''version'', ''is_default'']
      then [''version'', ''is_default'']
      else if hasKeys record [''name'', ''cloud_provider'', ''region'', ''kubernetes_version'',
             ''compute_quota'', ''memory_quota_gb'', ''status'']
      then [''name'', ''cloud_provider'', ''region'', ''kubernetes_version'',
             ''compute_quota'', ''memory_quota_gb'', ''status'']
      else sort (map fst record))"

subsection \<open>encoding/csv: one row\<close>

text \<open>
  \<open>csv.Writer.Write\<close> with the default comma and line end. A field is quoted when it
  holds a comma, a quote, a line feed or a carriage return, when it is \<open>\.\<close>, or when its
  first rune is a space by \<open>unicode.IsSpace\<close>; inside quotes a quote is doubled.
\<close>

fun starts_with_space :: "string \<Rightarrow> bool" where
  "starts_with_space [] = False"
| "starts_with_space (a # rest) =
     (a \<in> set [CHR 0x09, CHR 0x0A, CHR 0x0B, CHR 0x0C, CHR 0x0D, CHR 0x20]
      \<or> (a = CHR 0xC2 \<and> (take 1 rest = [CHR 0x85] \<or> take 1 rest = [CHR 0xA0]))
      \<or> (a = CHR 0xE1 \<and> take 2 rest = [CHR 0x9A, CHR 0x80])
      \<or> (a = CHR 0xE2 \<and> take 1 rest = [CHR 0x80] \<and>
            (case drop 1 rest of [] \<Rightarrow> False
             | c # _ \<Rightarrow> ((0x80::nat) \<le> of_char c \<and> of_char c \<le> (0x8A::nat))
                        \<or> c = CHR 0xA8 \<or> c = CHR 0xA9 \<or> c = CHR 0xAF))
      \<or> (a = CHR 0xE2 \<and> take 2 rest = [CHR 0x81, CHR 0x9F])
      \<or> (a = CHR 0xE3 \<and> take 2 rest = [CHR 0x80, CHR 0x80]))"

definition fieldNeedsQuotes :: "string \<Rightarrow> bool" where
  "fieldNeedsQuotes fld \<longleftrightarrow>
     fld \<noteq> [] \<and>
     (fld = [CHR 0x5C, CHR ''.'']
      \<or> list_ex (\<lambda>c. c = CHR 0x0A \<or> c = CHR 0x0D \<or> c = CHR 0x22 \<or> c = CHR '','') fld
      \<or> starts_with_space fld)"

definition csvField :: "string \<Rightarrow> string" where
  "csvField fld =
     (if \<not> fieldNeedsQuotes fld then fld
      else [CHR 0x22] @ concat (map (\<lambda>c. if c = CHR 0x22 then [CHR 0x22, CHR 0x22] else [c]) fld)
           @ [CHR 0x22])"

fun csvJoin :: "string list \<Rightarrow> string" where
  "csvJoin [] = []"
| "csvJoin [f] = csvField f"
| "csvJoin (f # fs) = csvField f @ CHR '','' # csvJoin fs"

definition csvWrite :: "string list \<Rightarrow> string" where
  "csvWrite row = csvJoin row @ [CHR 0x0A]"

subsection \<open>formatCSV and formatTable\<close>

record Formatter =
  format :: string
  noHeaders :: bool

text \<open>
  \<open>for _, value := range record\<close>: Go visits the entries of a map in an order the runtime
  picks, which may differ from one loop to the next. The rows such a loop can build are
  the renderings of the values in any order of the entries.
\<close>

inductive range_values :: "gomap \<Rightarrow> string list \<Rightarrow> bool" where
  "mset es = mset record \<Longrightarrow> range_values record (map (\<lambda>(k, value). sprint_v value) es)"

text \<open>
  The bytes \<open>formatCSV\<close> leaves in the sink (the writer is flushed on return) with its
  result, as the set of outcomes a call can have: one outcome on every path but the loop
  over a map in the branch without headers.
\<close>

definition headerRow :: "string list \<Rightarrow> gomap \<Rightarrow> string list" where
  "headerRow headers record = map (\<lambda>header. sprint_v (index record header)) headers"

definition formatCSV :: "Formatter \<Rightarrow> data \<Rightarrow> (error + string) set" where
  "formatCSV f d =
     (case convertToRecords d of
        Inl err \<Rightarrow> {Inl err}
      | Inr records \<Rightarrow>
          if length records = 0 then {Inr []}
          else if \<not> noHeaders f then
            (let headers = getOrderedHeadersFromRecord (hd records)
             in {Inr (csvWrite headers @ concat (map (\<lambda>record. csvWrite (headerRow headers record)) records))})
          else {Inr (concat (map csvWrite rows)) | rows. list_all2 range_values records rows})"

text \<open>
  \<open>formatTable\<close> hands the header and the rows to the table writer of
  \<open>github.com/olekukonko/tablewriter\<close>, which is no part of this repository: \<open>render\<close> stands
  for what \<open>SetHeader\<close>, \<open>Append\<close> and \<open>Render\<close> write under the settings made here.
\<close>

definition tableHeaders :: "gomap list \<Rightarrow> string list" where
  "tableHeaders records = map Title (getOrderedHeadersFromRecord (hd records))"

definition tableRows :: "gomap list \<Rightarrow> string list list" where
  "tableRows records =
     map (\<lambda>record. map (\<lambda>header. sprint_v (index record (ToLower header))) (tableHeaders records))
       records"

definition formatTable ::
  "(string list \<Rightarrow> string list list \<Rightarrow> string) \<Rightarrow> Formatter \<Rightarrow> data \<Rightarrow> error + string" where
  "formatTable render f d =
     (case convertToRecords d of
        Inl err \<Rightarrow> Inl err
      | Inr records \<Rightarrow>
          if length records = 0 then Inr ''No data found\<newline>''
          else Inr (render (tableHeaders records) (tableRows records)))"

subsection \<open>FormatData\<close>

definition FormatTable :: string where "FormatTable = ''table''"
definition FormatJSON :: string where "FormatJSON = ''json''"
definition FormatYAML :: string where "FormatYAML = ''yaml''"
definition FormatCSV :: string where "FormatCSV = ''csv''"

text \<open>
  \<open>formatJSON\<close> and \<open>formatYAML\<close> hand the value to the encoders of \<open>encoding/json\<close> and
  \<open>gopkg.in/yaml.v3\<close>; \<open>json_out\<close> and \<open>yaml_out\<close> stand for what those write and return
  for it.
\<close>

definition FormatData ::
  "(error + string) \<Rightarrow> (error + string) \<Rightarrow> (string list \<Rightarrow> string list list \<Rightarrow> string) \<Rightarrow>
   Formatter \<Rightarrow> data \<Rightarrow> (error + string) set" where
  "FormatData json_out yaml_out render f d =
     (if format f = FormatJSON then {json_out}
      else if format f = FormatYAML then {yaml_out}
      else if format f = FormatCSV then formatCSV f d
      else if format f = FormatTable then {formatTable render f d}
      else {Inl (Error (''unsupported format: '' @ format f))})"


section \<open>The standard library's JSON codec (encoding/json), as far as the program uses it\<close>

text \<open>
  \<open>encoding/json\<close>, \<open>unicode/utf8\<close> and \<open>strconv\<close> are no part of the repository. What the
  program relies on is written out here from their documented behaviour: the grammar the
  scanner accepts, how strings are unquoted and quoted, how a document is decoded into
  \<open>interface{}\<close> and encoded again. The conversion between a number literal and a
  \<open>float64\<close> is left as a pair of parameters (\<open>parseFloat\<close>, \<open>formatFloat\<close>).
\<close>

subsection \<open>UTF-8\<close>

definition byte :: "char \<Rightarrow> nat" where
  "byte c = of_char c"

definition byte_in :: "nat \<Rightarrow> nat \<Rightarrow> char \<Rightarrow> bool" where
  "byte_in lo hi c \<longleftrightarrow> lo \<le> byte c \<and> byte c \<le> hi"

definition cont_byte :: "char \<Rightarrow> bool" where
  "cont_byte c \<longleftrightarrow> byte_in 0x80 0xBF c"

text \<open>
  After a leading byte: \<open>n\<close> more bytes are there, the first within \<open>lo..hi\<close>, the others
  continuation bytes.
\<close>

definition tail_ok :: "nat \<Rightarrow> nat \<Rightarrow> nat \<Rightarrow> string \<Rightarrow> bool" where
  "tail_ok lo hi n rest \<longleftrightarrow>
     n \<le> length rest \<and> list_all (byte_in lo hi) (take 1 rest) \<and>
     list_all cont_byte (take (n - 1) (drop 1 rest))"

text \<open>
  \<open>utf8.DecodeRune\<close>: the number of bytes of the encoding at the front of the string, 0
  where Go returns \<open>(RuneError, 1)\<close> (no valid encoding starts here) or the string is empty.
\<close>

fun rune_len :: "string \<Rightarrow> nat" where
  "rune_len [] = 0"
| "rune_len (a # rest) =
     (if byte a < 0x80 then 1
      else if byte_in 0xC2 0xDF a then (if tail_ok 0x80 0xBF 1 rest then 2 else 0)
      else if byte a = 0xE0 then (if tail_ok 0xA0 0xBF 2 rest then 3 else 0)
      else if byte_in 0xE1 0xEC a \<or> byte_in 0xEE 0xEF a then (if tail_ok 0x80 0xBF 2 rest then 3 else 0)
      else if byte a = 0xED then (if tail_ok 0x80 0x9F 2 rest then 3 else 0)
      else if byte a = 0xF0 then (if tail_ok 0x90 0xBF 3 rest then 4 else 0)
      else if byte_in 0xF1 0xF3 a then (if tail_ok 0x80 0xBF 3 rest then 4 else 0)
      else if byte a = 0xF4 then (if tail_ok 0x80 0x8F 3 rest then 4 else 0)
      else 0)"

declare rune_len.simps [simp del]

text \<open>\<open>utf8.ValidString\<close>\<close>

function valid_utf8 :: "string \<Rightarrow> bool" where
  "valid_utf8 [] = True"
| "valid_utf8 (c # cs) =
     (if rune_len (c # cs) = 0 then False else valid_utf8 (drop (rune_len (c # cs)) (c # cs)))"
  by pat_completeness auto
termination
  by (relation "measure length") auto

text \<open>The replacement character U+FFFD, encoded.\<close>

definition replacement :: string where
  "replacement = [CHR 0xEF, CHR 0xBF, CHR 0xBD]"

text \<open>\<open>utf8.EncodeRune\<close>; a surrogate or a value beyond U+10FFFF is encoded as U+FFFD.\<close>

definition utf8_encode :: "nat \<Rightarrow> string" where
  "utf8_encode r =
     (if r < 0x80 then [char_of r]
      else if r < 0x800 then [char_of (0xC0 + r div 64), char_of (0x80 + r mod 64)]
      else if (0xD800 \<le> r \<and> r < 0xE000) \<or> 0x10FFFF < r then replacement
      else if r < 0x10000 then
        [char_of (0xE0 + r div 4096), char_of (0x80 + (r div 64) mod 64), char_of (0x80 + r mod 64)]
      else
        [char_of (0xF0 + r div 262144), char_of (0x80 + (r div 4096) mod 64),
         char_of (0x80 + (r div 64) mod 64), char_of (0x80 + r mod 64)])"

subsection \<open>Quoting a string (the encoder's \<open>appendString\<close>, HTML escaping on)\<close>

definition hex_char :: "nat \<Rightarrow> char" where
  "hex_char d = ''0123456789abcdef'' ! d"

text \<open>
  One byte below 0x80: the quote and the backslash get a backslash; backspace, form feed,
  line feed, carriage return and tab their letter; the other control bytes and \<open><\<close>, \<open>>\<close>,
  \<open>&\<close> are written \<open>\u00XY\<close>; every other byte stands for itself.
\<close>

definition escape_byte :: "char \<Rightarrow> string" where
  "escape_byte b =
     (if b = CHR 0x22 \<or> b = CHR 0x5C then [CHR 0x5C, b]
      else if b = CHR 0x08 then [CHR 0x5C, CHR ''b'']
      else if b = CHR 0x0C then [CHR 0x5C, CHR ''f'']
      else if b = CHR 0x0A then [CHR 0x5C, CHR ''n'']
      else if b = CHR 0x0D then [CHR 0x5C, CHR ''r'']
      else if b = CHR 0x09 then [CHR 0x5C, CHR ''t'']
      else if byte b < 0x20 \<or> b = CHR ''<'' \<or> b = CHR ''>'' \<or> b = CHR ''&'' then
        [CHR 0x5C, CHR ''u'', CHR ''0'', CHR ''0'', hex_char (byte b div 16), hex_char (byte b mod 16)]
      else [b])"

text \<open>
  The loop of \<open>appendString\<close>: a byte that starts no valid encoding is written as
  \<open>\ufffd\<close>, U+2028 and U+2029 as \<open>\u2028\<close> and \<open>\u2029\<close>, any other rune is copied.
\<close>

function escape_string :: "string \<Rightarrow> string" where
  "escape_string [] = []"
| "escape_string (b # bs) =
     (if byte b < 0x80 then escape_byte b @ escape_string bs
      else if rune_len (b # bs) = 0 then CHR 0x5C # ''ufffd'' @ escape_string bs
      else if take (rune_len (b # bs)) (b # bs) = [CHR 0xE2, CHR 0x80, CHR 0xA8]
        then CHR 0x5C # ''u2028'' @ escape_string (drop (rune_len (b # bs)) (b # bs))
      else if take (rune_len (b # bs)) (b # bs) = [CHR 0xE2, CHR 0x80, CHR 0xA9]
        then CHR 0x5C # ''u2029'' @ escape_string (drop (rune_len (b # bs)) (b # bs))
      else take (rune_len (b # bs)) (b # bs) @ escape_string (drop (rune_len (b # bs)) (b # bs)))"
  by pat_completeness auto
termination
  by (relation "measure length") auto

definition appendString :: "string \<Rightarrow> string" where
  "appendString s = CHR 0x22 # escape_string s @ [CHR 0x22]"

subsection \<open>Unquoting a string (the scanner's string states and \<open>unquote\<close>)\<close>

definition hex_val :: "char \<Rightarrow> nat option" where
  "hex_val c =
     (if is_digit c then Some (byte c - 48)
      else if byte_in 97 102 c then Some (byte c - 87)
      else if byte_in 65 70 c then Some (byte c - 55)
      else None)"

text \<open>The value of four hexadecimal digits at the front of the string.\<close>

definition hex4 :: "string \<Rightarrow> nat option" where
  "hex4 s =
     (case map hex_val (take 4 s) of
        [Some w, Some x, Some y, Some z] \<Rightarrow> Some (((w * 16 + x) * 16 + y) * 16 + z)
      | _ \<Rightarrow> None)"

text \<open>
  \<open>utf16.DecodeRune\<close> on a first half \<open>rr\<close> and the escape that follows it, if one does:
  the code point of a valid surrogate pair.
\<close>

definition surrogate_pair :: "nat \<Rightarrow> string \<Rightarrow> nat option" where
  "surrogate_pair rr rest =
     (if take 2 rest = [CHR 0x5C, CHR ''u''] then
        (case hex4 (drop 2 rest) of
           None \<Rightarrow> None
         | Some rr1 \<Rightarrow>
             if 0xD800 \<le> rr \<and> rr < 0xDC00 \<and> 0xDC00 \<le> rr1 \<and> rr1 < 0xE000
             then Some ((rr - 0xD800) * 0x400 + (rr1 - 0xDC00) + 0x10000)
             else None)
      else None)"

definition simple_escape :: "char \<Rightarrow> char option" where
  "simple_escape e =
     (if e = CHR 0x22 \<or> e = CHR 0x5C \<or> e = CHR ''/'' then Some e
      else if e = CHR ''b'' then Some (CHR 0x08)
      else if e = CHR ''f'' then Some (CHR 0x0C)
      else if e = CHR ''n'' then Some (CHR 0x0A)
      else if e = CHR ''r'' then Some (CHR 0x0D)
      else if e = CHR ''t'' then Some (CHR 0x09)
      else None)"

text \<open>
  The text after an opening quote: the decoded string up to the closing quote and the
  input after it; \<open>None\<close> when the string is not closed, holds a raw control byte or a
  wrong escape. Invalid UTF-8 and lone surrogate escapes become U+FFFD.
\<close>

function unquote :: "string \<Rightarrow> string \<Rightarrow> (string \<times> string) option" where
  "unquote acc [] = None"
| "unquote acc (c # cs) =
     (if c = CHR 0x22 then Some (acc, cs)
      else if c = CHR 0x5C then
        (case cs of
           [] \<Rightarrow> None
         | e # es \<Rightarrow>
             if e = CHR ''u'' then
               (case hex4 es of
                  None \<Rightarrow> None
                | Some rr \<Rightarrow>
                    if 0xD800 \<le> rr \<and> rr < 0xE000 then
                      (case surrogate_pair rr (drop 4 es) of
                         Some dec \<Rightarrow> unquote (acc @ utf8_encode dec) (drop 10 es)
                       | None \<Rightarrow> unquote (acc @ replacement) (drop 4 es))
                    else unquote (acc @ utf8_encode rr) (drop 4 es))
             else (case simple_escape e of
                     None \<Rightarrow> None
                   | Some x \<Rightarrow> unquote (acc @ [x]) es))
      else if byte c < 0x20 then None
      else if byte c < 0x80 then unquote (acc @ [c]) cs
      else if rune_len (c # cs) = 0 then unquote (acc @ replacement) cs
      else unquote (acc @ take (rune_len (c # cs)) (c # cs)) (drop (rune_len (c # cs)) (c # cs)))"
  by pat_completeness auto
termination
  by (relation "measure (\<lambda>(acc, s). length s)") auto

subsection \<open>Documents\<close>

text \<open>
  A JSON document; \<open>'n\<close> is what stands for a number: its literal text after scanning, a
  \<open>float64\<close> after decoding into \<open>interface{}\<close>. An object is the list of its members; after
  decoding into a Go map the keys are distinct.
\<close>

datatype 'n json =
    JNull
  | JBool bool
  | JNumber 'n
  | JString string
  | JArray "'n json list"
  | JObject "(string \<times> 'n json) list"

datatype token =
    TLBrace | TRBrace | TLBrack | TRBrack | TColon | TComma
  | TString string | TNumber string | TTrue | TFalse | TNull

subsection \<open>The scanner: tokens\<close>

definition is_space :: "char \<Rightarrow> bool" where
  "is_space c \<longleftrightarrow> c = CHR '' '' \<or> c = CHR 0x09 \<or> c = CHR 0x0D \<or> c = CHR 0x0A"

definition digits1 :: "string \<Rightarrow> bool" where
  "digits1 s \<longleftrightarrow> s \<noteq> [] \<and> list_all is_digit s"

definition valid_exp :: "string \<Rightarrow> bool" where
  "valid_exp s =
     (case s of
        [] \<Rightarrow> False
      | c # r \<Rightarrow> if c = CHR ''+'' \<or> c = CHR ''-'' then digits1 r else digits1 s)"

definition valid_frac_exp :: "string \<Rightarrow> bool" where
  "valid_frac_exp s =
     (case s of
        [] \<Rightarrow> True
      | c # r \<Rightarrow>
          if c = CHR ''.'' then
            takeWhile is_digit r \<noteq> [] \<and>
            (case dropWhile is_digit r of
               [] \<Rightarrow> True
             | e # x \<Rightarrow> (e = CHR ''e'' \<or> e = CHR ''E'') \<and> valid_exp x)
          else (c = CHR ''e'' \<or> c = CHR ''E'') \<and> valid_exp r)"

text \<open>The number grammar: \<open>-? (0 | [1-9][0-9]*) (. [0-9]+)? ([eE] [+-]? [0-9]+)?\<close>\<close>

definition valid_number :: "string \<Rightarrow> bool" where
  "valid_number s =
     (case (case s of [] \<Rightarrow> [] | c # r \<Rightarrow> if c = CHR ''-'' then r else s) of
        [] \<Rightarrow> False
      | d # r \<Rightarrow>
          if d = CHR ''0'' then valid_frac_exp r
          else is_digit d \<and> valid_frac_exp (dropWhile is_digit r))"

definition num_char :: "char \<Rightarrow> bool" where
  "num_char c \<longleftrightarrow>
     is_digit c \<or> c = CHR ''+'' \<or> c = CHR ''-'' \<or> c = CHR ''.'' \<or> c = CHR ''e'' \<or> c = CHR ''E''"

lemma unquote_shorter: "unquote acc s = Some (x, rest) \<Longrightarrow> length rest < length s"
proof (induction acc s rule: unquote.induct)
  case (1 acc)
  then show ?case by simp
next
  case (2 acc c cs)
  show ?case
  proof (cases "c = CHR 0x22")
    case True
    with "2.prems" show ?thesis by simp
  next
    case nq: False
    show ?thesis
    proof (cases "c = CHR 0x5C")
      case True
      with nq "2.prems" "2.IH"(1,2,3,4) show ?thesis
        by (fastforce split: list.splits option.splits if_splits)
    next
      case False
      with nq "2.prems" "2.IH"(5,6,7) show ?thesis
        by (fastforce split: if_splits)
    qed
  qed
qed

function lex :: "string \<Rightarrow> token list option" where
  "lex [] = Some []"
| "lex (c # cs) =
     (if is_space c then lex cs
      else if c = CHR ''{'' then map_option ((#) TLBrace) (lex cs)
      else if c = CHR ''}'' then map_option ((#) TRBrace) (lex cs)
      else if c = CHR ''['' then map_option ((#) TLBrack) (lex cs)
      else if c = CHR '']'' then map_option ((#) TRBrack) (lex cs)
      else if c = CHR '':'' then map_option ((#) TColon) (lex cs)
      else if c = CHR '','' then map_option ((#) TComma) (lex cs)
      else if c = CHR 0x22 then
        (case unquote [] cs of
           None \<Rightarrow> None
         | Some (s, rest) \<Rightarrow> map_option ((#) (TString s)) (lex rest))
      else if c = CHR ''-'' \<or> is_digit c then
        (if valid_number (c # takeWhile num_char cs)
         then map_option ((#) (TNumber (c # takeWhile num_char cs))) (lex (dropWhile num_char cs))
         else None)
      else if is_lower c then
        (if c # takeWhile is_lower cs = ''true'' then map_option ((#) TTrue) (lex (dropWhile is_lower cs))
         else if c # takeWhile is_lower cs = ''false'' then map_option ((#) TFalse) (lex (dropWhile is_lower cs))
         else if c # takeWhile is_lower cs = ''null'' then map_option ((#) TNull) (lex (dropWhile is_lower cs))
         else None)
      else None)"
  by pat_completeness auto
termination
proof (relation "measure length")
  show "wf (measure length)" by simp
qed (auto simp: length_dropWhile_le less_Suc_eq_le dest: unquote_shorter less_imp_le)

subsection \<open>The scanner: nesting\<close>

datatype frame =
    FArray "string json list"
  | FObject "(string \<times> string json) list" "string option"

datatype pstate =
    BeginValue | BeginValueOrEnd | BeginKeyOrEnd | BeginKey | ExpectColon | EndValue
  | Finished "string json"

definition maxNestingDepth :: nat where
  "maxNestingDepth = 10000"

definition push_value :: "string json \<Rightarrow> frame list \<Rightarrow> (pstate \<times> frame list) option" where
  "push_value v stack =
     (case stack of
        [] \<Rightarrow> Some (Finished v, [])
      | FArray xs # st \<Rightarrow> Some (EndValue, FArray (xs @ [v]) # st)
      | FObject ms (Some k) # st \<Rightarrow> Some (EndValue, FObject (ms @ [(k, v)]) None # st)
      | FObject ms None # st \<Rightarrow> None)"

definition close_array :: "frame list \<Rightarrow> (pstate \<times> frame list) option" where
  "close_array stack = (case stack of FArray xs # st \<Rightarrow> push_value (JArray xs) st | _ \<Rightarrow> None)"

definition close_object :: "frame list \<Rightarrow> (pstate \<times> frame list) option" where
  "close_object stack =
     (case stack of FObject ms None # st \<Rightarrow> push_value (JObject ms) st | _ \<Rightarrow> None)"

definition begin_value :: "bool \<Rightarrow> token \<Rightarrow> frame list \<Rightarrow> (pstate \<times> frame list) option" where
  "begin_value or_end t stack =
     (case t of
        TString x \<Rightarrow> push_value (JString x) stack
      | TNumber x \<Rightarrow> push_value (JNumber x) stack
      | TTrue \<Rightarrow> push_value (JBool True) stack
      | TFalse \<Rightarrow> push_value (JBool False) stack
      | TNull \<Rightarrow> push_value JNull stack
      | TLBrack \<Rightarrow>
          if length stack < maxNestingDepth then Some (BeginValueOrEnd, FArray [] # stack) else None
      | TLBrace \<Rightarrow>
          if length stack < maxNestingDepth then Some (BeginKeyOrEnd, FObject [] None # stack) else None
      | TRBrack \<Rightarrow> if or_end then close_array stack else None
      | _ \<Rightarrow> None)"

definition begin_key :: "bool \<Rightarrow> token \<Rightarrow> frame list \<Rightarrow> (pstate \<times> frame list) option" where
  "begin_key or_end t stack =
     (case t of
        TString k \<Rightarrow>
          (case stack of
             FObject ms None # st \<Rightarrow> Some (ExpectColon, FObject ms (Some k) # st)
           | _ \<Rightarrow> None)
      | TRBrace \<Rightarrow> if or_end then close_object stack else None
      | _ \<Rightarrow> None)"

definition end_value :: "token \<Rightarrow> frame list \<Rightarrow> (pstate \<times> frame list) option" where
  "end_value t stack =
     (case t of
        TComma \<Rightarrow>
          (case stack of
             FArray xs # st \<Rightarrow> Some (BeginValue, stack)
           | FObject ms k # st \<Rightarrow> Some (BeginKey, stack)
           | [] \<Rightarrow> None)
      | TRBrack \<Rightarrow> close_array stack
      | TRBrace \<Rightarrow> close_object stack
      | _ \<Rightarrow> None)"

fun pstep :: "token \<Rightarrow> pstate \<times> frame list \<Rightarrow> (pstate \<times> frame list) option" where
  "pstep t (BeginValue, stack) = begin_value False t stack"
| "pstep t (BeginValueOrEnd, stack) = begin_value True t stack"
| "pstep t (BeginKeyOrEnd, stack) = begin_key True t stack"
| "pstep t (BeginKey, stack) = begin_key False t stack"
| "pstep t (ExpectColon, stack) = (case t of TColon \<Rightarrow> Some (BeginValue, stack) | _ \<Rightarrow> None)"
| "pstep t (EndValue, stack) = end_value t stack"
| "pstep t (Finished v, stack) = None"

fun parse_tokens :: "token list \<Rightarrow> pstate \<times> frame list \<Rightarrow> string json option" where
  "parse_tokens [] st = (case fst st of Finished v \<Rightarrow> Some v | _ \<Rightarrow> None)"
| "parse_tokens (t # ts) st =
     (case pstep t st of None \<Rightarrow> None | Some st' \<Rightarrow> parse_tokens ts st')"

text \<open>A whole input: one value, with white space around it and nothing else.\<close>

definition parse_json :: "string \<Rightarrow> string json option" where
  "parse_json raw =
     (case lex raw of None \<Rightarrow> None | Some ts \<Rightarrow> parse_tokens ts (BeginValue, []))"

subsection \<open>Decoding into \<open>interface{}\<close> and encoding it again\<close>

text \<open>
  \<open>json.Unmarshal(raw, &v)\<close> with \<open>v\<close> an \<open>interface{}\<close>: numbers become \<open>float64\<close> (a
  literal out of range is an error), an object becomes a map, so of two members with one
  key the later one stays.
\<close>

fun toInterface :: "(string \<Rightarrow> 'n option) \<Rightarrow> string json \<Rightarrow> 'n json option" where
  "toInterface parseFloat JNull = Some JNull"
| "toInterface parseFloat (JBool b) = Some (JBool b)"
| "toInterface parseFloat (JNumber lit) = map_option JNumber (parseFloat lit)"
| "toInterface parseFloat (JString s) = Some (JString s)"
| "toInterface parseFloat (JArray xs) =
     map_option JArray (those (map (toInterface parseFloat) xs))"
| "toInterface parseFloat (JObject ms) =
     map_option (\<lambda>vs. JObject (foldl (\<lambda>m kv. assign (fst kv) (snd kv) m) [] (zip (map fst ms) vs)))
       (those (map (\<lambda>kv. toInterface parseFloat (snd kv)) ms))"

definition Unmarshal :: "(string \<Rightarrow> 'n option) \<Rightarrow> string \<Rightarrow> 'n json option" where
  "Unmarshal parseFloat raw =
     (case parse_json raw of None \<Rightarrow> None | Some t \<Rightarrow> toInterface parseFloat t)"

fun join :: "string \<Rightarrow> string list \<Rightarrow> string" where
  "join sep [] = []"
| "join sep [x] = x"
| "join sep (x # xs) = x @ sep @ join sep xs"

text \<open>
  \<open>json.Marshal(v)\<close> of such a value: compact, the keys of a map in ascending order.
\<close>

fun Marshal :: "('n \<Rightarrow> string) \<Rightarrow> 'n json \<Rightarrow> string" where
  "Marshal formatFloat JNull = ''null''"
| "Marshal formatFloat (JBool b) = (if b then ''true'' else ''false'')"
| "Marshal formatFloat (JNumber n) = formatFloat n"
| "Marshal formatFloat (JString s) = appendString s"
| "Marshal formatFloat (JArray xs) =
     ''['' @ join '','' (map (Marshal formatFloat) xs) @ '']''"
| "Marshal formatFloat (JObject ms) =
     ''{'' @ join '',''
        (map (\<lambda>kv. appendString (fst kv) @ '':'' @ snd kv)
           (sort_key fst (map (\<lambda>kv. (fst kv, Marshal formatFloat (snd kv))) ms)))
      @ ''}''"

section \<open>Credential store (package config)\<close>

text \<open>Go's \<open>int\<close> is taken to be 64 bits wide.\<close>

record Config =
  APIURL :: string
  AccessToken :: string
  RefreshToken :: string
  UserEmail :: string
  DefaultCloud :: string
  DefaultRegion :: string
  DefaultCompute :: int
  DefaultMemory :: int

definition DefaultConfig :: Config where
  "DefaultConfig =
     \<lparr>APIURL = ''http://localhost:8080'', AccessToken = [], RefreshToken = [], UserEmail = [],
      DefaultCloud = ''eks'', DefaultRegion = ''eu'', DefaultCompute = 2, DefaultMemory = 4\<rparr>"

definition IsAuthenticated :: "Config \<Rightarrow> bool" where
  "IsAuthenticated c \<longleftrightarrow> AccessToken c \<noteq> [] \<and> RefreshToken c \<noteq> []"

definition ClearAuth :: "Config \<Rightarrow> Config" where
  "ClearAuth c = c\<lparr>AccessToken := [], RefreshToken := [], UserEmail := []\<rparr>"

definition UpdateTokens :: "string \<Rightarrow> string \<Rightarrow> string \<Rightarrow> Config \<Rightarrow> Config" where
  "UpdateTokens accessToken refreshToken userEmail c =
     c\<lparr>AccessToken := accessToken, RefreshToken := refreshToken, UserEmail := userEmail\<rparr>"

subsection \<open>\<open>json.MarshalIndent\<close> of a \<open>Config\<close>\<close>

text \<open>
  The members in the order of the struct's fields, each with its encoded value; a field
  tagged \<open>omitempty\<close> is left out when it is empty or zero.
\<close>

definition config_members :: "Config \<Rightarrow> (string \<times> string) list" where
  "config_members c =
     [(''api_url'', appendString (APIURL c)),
      (''access_token'', appendString (AccessToken c)),
      (''refresh_token'', appendString (RefreshToken c)),
      (''user_email'', appendString (UserEmail c))]
     @ (if DefaultCloud c = [] then [] else [(''default_cloud'', appendString (DefaultCloud c))])
     @ (if DefaultRegion c = [] then [] else [(''default_region'', appendString (DefaultRegion c))])
     @ (if DefaultCompute c = 0 then [] else [(''default_compute'', int_to_string (DefaultCompute c))])
     @ (if DefaultMemory c = 0 then [] else [(''default_memory'', int_to_string (DefaultMemory c))])"

text \<open>With the prefix empty and the indent two spaces: one member per line.\<close>

definition member_line :: "string \<times> string \<Rightarrow> string" where
  "member_line kv = ''  '' @ appendString (fst kv) @ '': '' @ snd kv"

definition MarshalIndentConfig :: "Config \<Rightarrow> string" where
  "MarshalIndentConfig c =
     ''{\<newline>'' @ join '',\<newline>'' (map member_line (config_members c)) @ ''\<newline>}''"

subsection \<open>\<open>json.Unmarshal\<close> into a \<open>Config\<close>\<close>

text \<open>
  A key names a field when the two agree after folding: ASCII letters regardless of case,
  and the Kelvin sign (E2 84 AA) for \<open>k\<close>, the long s (C5 BF) for \<open>s\<close>. Other runes
  outside ASCII fold to runes outside ASCII and are copied here, so comparing with the
  (ASCII) field names gives what Go gives.
\<close>

fun foldName :: "string \<Rightarrow> string" where
  "foldName (a # b # c # cs) =
     (if a = CHR 0xE2 \<and> b = CHR 0x84 \<and> c = CHR 0xAA then CHR ''K'' # foldName cs
      else if a = CHR 0xC5 \<and> b = CHR 0xBF then CHR ''S'' # foldName (c # cs)
      else upper_char a # foldName (b # c # cs))"
| "foldName [a, b] =
     (if a = CHR 0xC5 \<and> b = CHR 0xBF then [CHR ''S'']
      else upper_char a # foldName [b])"
| "foldName [a] = [upper_char a]"
| "foldName [] = []"

definition int64_range :: "int \<Rightarrow> bool" where
  "int64_range i \<longleftrightarrow> - (2 ^ 63) \<le> i \<and> i < 2 ^ 63"

definition digits_val :: "string \<Rightarrow> nat" where
  "digits_val ds = foldl (\<lambda>a d. a * 10 + (byte d - 48)) 0 ds"

text \<open>\<open>strconv.ParseInt(lit, 10, 64)\<close> on a number literal of a valid document.\<close>

definition parseInt64 :: "string \<Rightarrow> int option" where
  "parseInt64 lit =
     (let neg = (take 1 lit = ''-''); ds = (if neg then drop 1 lit else lit)
      in if digits1 ds
         then (let i = (if neg then - int (digits_val ds) else int (digits_val ds))
               in if int64_range i then Some i else None)
         else None)"

text \<open>
  A string field takes a JSON string and is left as it is by \<open>null\<close>; anything else is a
  type error. An \<open>int\<close> field takes a number whose literal is an integer within range.
\<close>

definition decodeStringField :: "string json \<Rightarrow> string \<Rightarrow> string option" where
  "decodeStringField v cur = (case v of JString s \<Rightarrow> Some s | JNull \<Rightarrow> Some cur | _ \<Rightarrow> None)"

definition decodeIntField :: "string json \<Rightarrow> int \<Rightarrow> int option" where
  "decodeIntField v cur = (case v of JNumber lit \<Rightarrow> parseInt64 lit | JNull \<Rightarrow> Some cur | _ \<Rightarrow> None)"

definition setField :: "string \<times> string json \<Rightarrow> Config \<Rightarrow> Config option" where
  "setField kv c =
     (if foldName (fst kv) = foldName ''api_url''
        then map_option (\<lambda>s. c\<lparr>APIURL := s\<rparr>) (decodeStringField (snd kv) (APIURL c))
      else if foldName (fst kv) = foldName ''access_token''
        then map_option (\<lambda>s. c\<lparr>AccessToken := s\<rparr>) (decodeStringField (snd kv) (AccessToken c))
      else if foldName (fst kv) = foldName ''refresh_token''
        then map_option (\<lambda>s. c\<lparr>RefreshToken := s\<rparr>) (decodeStringField (snd kv) (RefreshToken c))
      else if foldName (fst kv) = foldName ''user_email''
        then map_option (\<lambda>s. c\<lparr>UserEmail := s\<rparr>) (decodeStringField (snd kv) (UserEmail c))
      else if foldName (fst kv) = foldName ''default_cloud''
        then map_option (\<lambda>s. c\<lparr>DefaultCloud := s\<rparr>) (decodeStringField (snd kv) (DefaultCloud c))
      else if foldName (fst kv) = foldName ''default_region''
        then map_option (\<lambda>s. c\<lparr>DefaultRegion := s\<rparr>) (decodeStringField (snd kv) (DefaultRegion c))
      else if foldName (fst kv) = foldName ''default_compute''
        then map_option (\<lambda>i. c\<lparr>DefaultCompute := i\<rparr>) (decodeIntField (snd kv) (DefaultCompute c))
      else if foldName (fst kv) = foldName ''default_memory''
        then map_option (\<lambda>i. c\<lparr>DefaultMemory := i\<rparr>) (decodeIntField (snd kv) (DefaultMemory c))
      else Some c)"

fun decodeMembers :: "(string \<times> string json) list \<Rightarrow> Config \<Rightarrow> Config option" where
  "decodeMembers [] c = Some c"
| "decodeMembers (kv # ms) c =
     (case setField kv c of None \<Rightarrow> None | Some c' \<Rightarrow> decodeMembers ms c')"

definition zeroConfig :: Config where
  "zeroConfig =
     \<lparr>APIURL = [], AccessToken = [], RefreshToken = [], UserEmail = [],
      DefaultCloud = [], DefaultRegion = [], DefaultCompute = 0, DefaultMemory = 0\<rparr>"

text \<open>
  \<open>var config Config; json.Unmarshal(data, &config)\<close>: an object fills the fields it
  names, \<open>null\<close> leaves the zero value, any other document is a type error.
\<close>

definition UnmarshalConfig :: "string \<Rightarrow> Config option" where
  "UnmarshalConfig data =
     (case parse_json data of
        None \<Rightarrow> None
      | Some (JObject ms) \<Rightarrow> decodeMembers ms zeroConfig
      | Some JNull \<Rightarrow> Some zeroConfig
      | Some _ \<Rightarrow> None)"

subsection \<open>The file\<close>

text \<open>
  The file at \<open>getConfigPath()\<close> and how the operating system answers: \<open>content\<close> is its
  content (\<open>None\<close>: there is no such file); \<open>mkdir_err\<close>, \<open>write_err\<close> and \<open>read_err\<close> are the
  errors \<open>os.MkdirAll\<close>, \<open>os.WriteFile\<close> and \<open>os.ReadFile\<close> fail with, if they fail; a
  failed write leaves the file as \<open>after_failed_write\<close> says.
\<close>

record store =
  content :: "string option"
  mkdir_err :: "string option"
  write_err :: "string option"
  after_failed_write :: "string option"
  read_err :: "string option"

text \<open>\<open>Save\<close>: the error it returns (\<open>None\<close> is \<open>nil\<close>) and the store after it.\<close>

definition Save :: "Config \<Rightarrow> store \<Rightarrow> error option \<times> store" where
  "Save c st =
     (case mkdir_err st of
        Some m \<Rightarrow> (Some (Error (''failed to create config directory: '' @ m)), st)
      | None \<Rightarrow>
          (case write_err st of
             Some m \<Rightarrow> (Some (Error (''failed to write config file: '' @ m)),
                        st\<lparr>content := after_failed_write st\<rparr>)
           | None \<Rightarrow> (None, st\<lparr>content := Some (MarshalIndentConfig c)\<rparr>)))"

definition Load :: "store \<Rightarrow> (error + Config) \<times> store" where
  "Load st =
     (case content st of
        None \<Rightarrow> (Inr DefaultConfig, st)
      | Some data \<Rightarrow>
          (case read_err st of
             Some m \<Rightarrow> (Inl (Error (''failed to read config file: '' @ m)), st)
           | None \<Rightarrow>
               (case UnmarshalConfig data of
                  None \<Rightarrow> (Inl (Error ''failed to parse config file''), st)
                | Some c \<Rightarrow> (Inr c, st))))"

text \<open>
  A credentials value is well formed when its strings are valid UTF-8 and its integers are
  within the range of \<open>int\<close>.
\<close>

definition well_formed :: "Config \<Rightarrow> bool" where
  "well_formed c \<longleftrightarrow>
     valid_utf8 (APIURL c) \<and> valid_utf8 (AccessToken c) \<and> valid_utf8 (RefreshToken c) \<and>
     valid_utf8 (UserEmail c) \<and> valid_utf8 (DefaultCloud c) \<and> valid_utf8 (DefaultRegion c) \<and>
     int64_range (DefaultCompute c) \<and> int64_range (DefaultMemory c)"

section \<open>Authenticated transport (internal/api/client.go)\<close>

subsection \<open>Redaction of debug output\<close>

definition isSensitiveKey :: "string \<Rightarrow> bool" where
  "isSensitiveKey key \<longleftrightarrow>
     ToLower key \<in> set [''password'', ''pass'', ''pwd'', ''access_token'', ''refresh_token'',
       ''token'', ''authorization'']"

definition REDACTED :: string where
  "REDACTED = ''***REDACTED***''"

text \<open>
  \<open>redactRecursive\<close> updates maps and slices in place; every key of a map is visited once
  and handled on its own, so the order of the visit does not matter.
\<close>

fun redactRecursive :: "'n json \<Rightarrow> 'n json" where
  "redactRecursive (JObject val) =
     JObject (map (\<lambda>kv. if isSensitiveKey (fst kv) then (fst kv, JString REDACTED)
                          else (fst kv, redactRecursive (snd kv))) val)"
| "redactRecursive (JArray val) = JArray (map redactRecursive val)"
| "redactRecursive v = v"

definition redactSensitiveJSON ::
  "(string \<Rightarrow> 'n option) \<Rightarrow> ('n \<Rightarrow> string) \<Rightarrow> string \<Rightarrow> string" where
  "redactSensitiveJSON parseFloat formatFloat raw =
     (case Unmarshal parseFloat raw of
        None \<Rightarrow> raw
      | Some v \<Rightarrow> Marshal formatFloat (redactRecursive v))"

subsection \<open>Requests, responses and the network\<close>

text \<open>
  A request as \<open>net/http\<close> holds it. \<open>Body\<close> is the reader over the payload: the bytes not
  yet read from it, \<open>None\<close> when the request has no body. \<open>ContentLength\<close> is fixed by
  \<open>http.NewRequest\<close> from the payload's length.
\<close>

record Request =
  Method :: string
  URL :: string
  Header :: "(string \<times> string) list"
  ContentLength :: nat
  Body :: "string option"

text \<open>A request as the server receives it.\<close>

record Wire =
  w_method :: string
  w_url :: string
  w_header :: "(string \<times> string) list"
  w_body :: string

record Response =
  StatusCode :: int
  RespBody :: string

text \<open>
  The state the client works on: the remote side (\<open>net\<close>, any type), the requests that
  reached it so far (\<open>sent\<close>), the \<open>Config\<close> the client points to, the credential file,
  and what was written to standard error.
\<close>

record 's world =
  net :: 's
  sent :: "Wire list"
  cfg :: Config
  disk :: store
  stderr :: string

text \<open>
  What the program takes from outside the repository: \<open>json.Marshal\<close> of a request body
  (a value of any type \<open>'b\<close>; \<open>Inl\<close> its error), the error of \<open>http.NewRequest\<close> for a method
  and URL if it has one, the decoding of a login response (the three fields the client
  reads), the two \<open>float64\<close> conversions, and the remote side: what it answers to a request
  (\<open>Inl\<close>: no response, with the transport's error).
\<close>

record LoginResponse =
  lr_AccessToken :: string
  lr_RefreshToken :: string
  lr_UserEmail :: string

record ('b, 'n, 's) env =
  marshalBody :: "'b \<Rightarrow> string + string"
  newRequestErr :: "string \<Rightarrow> string \<Rightarrow> string option"
  decodeLogin :: "string \<Rightarrow> string + LoginResponse"
  parseFloat :: "string \<Rightarrow> 'n option"
  formatFloat :: "'n \<Rightarrow> string"
  server :: "'s \<Rightarrow> Wire \<Rightarrow> (string + Response) \<times> 's"

text \<open>\<open>http.NewRequest(method, url, body)\<close>\<close>

definition NewRequest ::
  "('b, 'n, 's) env \<Rightarrow> string \<Rightarrow> string \<Rightarrow> string option \<Rightarrow> string + Request" where
  "NewRequest e method url body =
     (case newRequestErr e method url of
        Some m \<Rightarrow> Inl m
      | None \<Rightarrow>
          Inr \<lparr>Method = method, URL = url, Header = [],
               ContentLength = (case body of None \<Rightarrow> 0 | Some b \<Rightarrow> length b), Body = body\<rparr>)"

text \<open>
  \<open>httpClient.Do(req)\<close>. Sending reads the body reader to its end, and the request keeps
  the drained reader. When the reader yields fewer bytes than \<open>ContentLength\<close> announces
  (it was read before), the transport gives up with an error and the server gets no
  request. Errors come wrapped in a \<open>url.Error\<close>.
\<close>

definition urlError :: "Request \<Rightarrow> string \<Rightarrow> string" where
  "urlError req m =
     map upper_char (take 1 (Method req)) @ map lower_char (drop 1 (Method req))
       @ '' '' @ [CHR 0x22] @ URL req @ [CHR 0x22] @ '': '' @ m"

definition Do ::
  "('b, 'n, 's) env \<Rightarrow> Request \<Rightarrow> 's world \<Rightarrow> (string + Response) \<times> Request \<times> 's world" where
  "Do e req w =
     (let unread = (case Body req of None \<Rightarrow> [] | Some b \<Rightarrow> b);
          req' = req\<lparr>Body := map_option (\<lambda>b. []) (Body req)\<rparr>
      in if Body req \<noteq> None \<and> length unread \<noteq> ContentLength req then
           (Inl (urlError req (''http: ContentLength='' @ nat_to_string (ContentLength req)
                   @ '' with Body length '' @ nat_to_string (length unread))), req', w)
         else
           (let wire = \<lparr>w_method = Method req, w_url = URL req, w_header = Header req,
                         w_body = unread\<rparr>;
                answer = server e (net w) wire;
                w' = w\<lparr>net := snd answer, sent := sent w @ [wire]\<rparr>
            in (case fst answer of
                  Inl m \<Rightarrow> (Inl (urlError req m), req', w')
                | Inr resp \<Rightarrow> (Inr resp, req', w'))))"

subsection \<open>The client\<close>

record Client =
  baseURL :: string
  debug :: bool

definition eprint :: "string \<Rightarrow> 's world \<Rightarrow> 's world" where
  "eprint s w = w\<lparr>stderr := stderr w @ s\<rparr>"

text \<open>\<open>json.Marshal(models.RefreshTokenRequest{RefreshToken: t})\<close>\<close>

definition marshalRefreshTokenRequest :: "string \<Rightarrow> string" where
  "marshalRefreshTokenRequest t = ''{'' @ appendString ''refresh_token'' @ '':'' @ appendString t @ ''}''"

text \<open>\<open>refreshToken\<close>: the error it returns (\<open>None\<close> is \<open>nil\<close>) and the state after it.\<close>

definition refreshToken ::
  "('b, 'n, 's) env \<Rightarrow> Client \<Rightarrow> 's world \<Rightarrow> error option \<times> 's world" where
  "refreshToken e c w0 =
     (let body = marshalRefreshTokenRequest (RefreshToken (cfg w0));
          url = baseURL c @ ''/api/v1/user/refresh'';
          w1 = (if debug c
                then eprint (''[spacectl] -> POST '' @ url @ ''\<newline>'' @ ''[spacectl]    body: ''
                       @ redactSensitiveJSON (parseFloat e) (formatFloat e) body @ ''\<newline>'') w0
                else w0)
      in case NewRequest e ''POST'' url (Some body) of
           Inl m \<Rightarrow> (Some (Error (''failed to create refresh request: '' @ m)), w1)
         | Inr req0 \<Rightarrow>
             (let req = req0\<lparr>Header := assign ''Content-Type'' ''application/json'' (Header req0)\<rparr>
              in case Do e req w1 of
                   (Inl m, req', w2) \<Rightarrow> (Some (Error (''refresh request failed: '' @ m)), w2)
                 | (Inr resp, req', w2) \<Rightarrow>
                     (let w3 = (if debug c
                                then eprint (''[spacectl] <- POST '' @ url @ '' : ''
                                       @ int_to_string (StatusCode resp) @ ''\<newline>'') w2
                                else w2)
                      in if StatusCode resp \<noteq> 200 then
                           (let w4 = w3\<lparr>cfg := ClearAuth (cfg w3)\<rparr>;
                                saved = Save (cfg w4) (disk w4)
                            in (Some (Error (''session expired (HTTP '' @ int_to_string (StatusCode resp)
                                        @ ''). Please run '' @ [CHR 0x27] @ ''spacectl login'' @ [CHR 0x27]
                                        @ '' to re-authenticate'')),
                                w4\<lparr>disk := snd saved\<rparr>))
                         else
                           (case decodeLogin e (RespBody resp) of
                              Inl m \<Rightarrow> (Some (Error (''failed to decode refresh response: '' @ m)), w3)
                            | Inr loginResp \<Rightarrow>
                                (let w4 = w3\<lparr>cfg := UpdateTokens (lr_AccessToken loginResp)
                                            (lr_RefreshToken loginResp) (lr_UserEmail loginResp) (cfg w3)\<rparr>;
                                     saved = Save (cfg w4) (disk w4);
                                     w5 = w4\<lparr>disk := snd saved\<rparr>
                                 in case fst saved of
                                      Some (Error m) \<Rightarrow>
                                        (Some (Error (''failed to save updated config: '' @ m)), w5)
                                    | None \<Rightarrow> (None, w5))))))"

text \<open>
  \<open>doRequest\<close>: the response or the error, and the state after it. \<open>body\<close> is \<open>None\<close> for
  \<open>nil\<close>.
\<close>

definition doRequest ::
  "('b, 'n, 's) env \<Rightarrow> Client \<Rightarrow> string \<Rightarrow> string \<Rightarrow> 'b option \<Rightarrow> 's world \<Rightarrow>
   (error + Response) \<times> 's world" where
  "doRequest e c method path body w0 =
     (case (case body of None \<Rightarrow> Inr None | Some b \<Rightarrow> map_sum id Some (marshalBody e b)) of
        Inl m \<Rightarrow> (Inl (Error (''failed to marshal request body: '' @ m)), w0)
      | Inr reqBody \<Rightarrow>
          (case NewRequest e method (baseURL c @ path) reqBody of
             Inl m \<Rightarrow> (Inl (Error (''failed to create request: '' @ m)), w0)
           | Inr req0 \<Rightarrow>
               (let req1 = req0\<lparr>Header := assign ''Content-Type'' ''application/json'' (Header req0)\<rparr>;
                    req2 = (if AccessToken (cfg w0) \<noteq> []
                            then req1\<lparr>Header := assign ''Authorization''
                                    (''Bearer '' @ AccessToken (cfg w0)) (Header req1)\<rparr>
                            else req1);
                    w1 = (if debug c
                          then eprint (''[spacectl] -> '' @ method @ '' '' @ baseURL c @ path @ ''\<newline>''
                                 @ (case reqBody of
                                      None \<Rightarrow> []
                                    | Some jsonBody \<Rightarrow>
                                        if length jsonBody > 0
                                        then ''[spacectl]    body: ''
                                          @ redactSensitiveJSON (parseFloat e) (formatFloat e) jsonBody
                                          @ ''\<newline>''
                                        else [])) w0
                          else w0)
                in case Do e req2 w1 of
                     (Inl m, req3, w2) \<Rightarrow> (Inl (Error (''request failed: '' @ m)), w2)
                   | (Inr resp, req3, w2) \<Rightarrow>
                       (case (if StatusCode resp = 401 \<and> RefreshToken (cfg w2) \<noteq> [] then
                                (case refreshToken e c w2 of
                                   (Some (Error m), w3) \<Rightarrow>
                                     (Inl (Error (''authentication failed: '' @ m)), w3)
                                 | (None, w3) \<Rightarrow>
                                     (let req4 = req3\<lparr>Header := assign ''Authorization''
                                            (''Bearer '' @ AccessToken (cfg w3)) (Header req3)\<rparr>
                                      in case Do e req4 w3 of
                                           (Inl m, req5, w4) \<Rightarrow>
                                             (Inl (Error (''retry request failed: '' @ m)), w4)
                                         | (Inr resp', req5, w4) \<Rightarrow> (Inr resp', w4)))
                              else (Inr resp, w2)) of
                          (Inl err, w5) \<Rightarrow> (Inl err, w5)
                        | (Inr resp, w5) \<Rightarrow>
                            (Inr resp,
                             if debug c
                             then eprint (''[spacectl] <- '' @ method @ '' '' @ baseURL c @ path
                                    @ '' : '' @ int_to_string (StatusCode resp) @ ''\<newline>'') w5
                             else w5)))))"

section \<open>Properties of the output formatter\<close>






lemma ToLower_Title_org:
  "ToLower ''Organization'' = ''organization''"
  "ToLower ''Role'' = ''role''"
  "ToLower ''Is_default'' = ''is_default''"
  by (simp_all add: lower_char_def lower_letters_def upper_letters_def)



lemmas format_names = FormatTable_def FormatJSON_def FormatYAML_def FormatCSV_def

lemmas eval_csv = formatCSV_def Let_def getOrderedHeadersFromRecord_def hasKeys_def csvWrite_def
  csvField_def fieldNeedsQuotes_def headerRow_def index_def int_to_string_def
  nat_to_string.simps digit_char_def

lemmas eval_table = formatTable_def tableHeaders_def tableRows_def getOrderedHeadersFromRecord_def
  hasKeys_def index_def int_to_string_def nat_to_string.simps digit_char_def Title_def
  isSeparator_def upper_char_def lower_char_def lower_letters_def upper_letters_def
  is_lower_def is_upper_def is_digit_def

text \<open>
  C7. Rendering an empty list in table mode writes exactly the line \<open>No data found\<close> with
  its line feed and returns no error; rendering it in CSV mode writes nothing (no
  placeholder, no header row) and returns no error. Both hold whatever \<open>noHeaders\<close> is.
\<close>

theorem C7_empty_list:
  "FormatData json_out yaml_out render \<lparr>format = FormatTable, noHeaders = nh\<rparr> (DSlice [])
     = {Inr ''No data found\<newline>''}
   \<and> FormatData json_out yaml_out render \<lparr>format = FormatCSV, noHeaders = nh\<rparr> (DSlice [])
     = {Inr []}"
  by (simp add: FormatData_def format_names formatTable_def formatCSV_def)







lemma csv_noHeaders_single:
  "noHeaders f \<Longrightarrow> convertToRecords d = Inr [r] \<Longrightarrow>
   formatCSV f d = {Inr (csvWrite row) | row. range_values r row}"
proof -
  assume nh: "noHeaders f" and c: "convertToRecords d = Inr [r]"
  have "{Inr (concat (map csvWrite rows)) | rows. list_all2 range_values [r] rows}
      = {Inr (csvWrite row) | row. range_values r row}" (is "?A = ?B")
  proof
    show "?A \<subseteq> ?B" by (auto simp: list_all2_Cons1)
    show "?B \<subseteq> ?A"
    proof
      fix x assume "x \<in> ?B"
      then obtain row where "x = Inr (csvWrite row)" and "range_values r row" by auto
      then have "x = Inr (concat (map csvWrite [row]))" and "list_all2 range_values [r] [row]"
        by simp_all
      then show "x \<in> ?A" by blast
    qed
  qed
  with nh c show ?thesis by (simp add: formatCSV_def)
qed

lemma csv_noHeaders_order:
  "mset es = mset r \<Longrightarrow>
   Inr (csvWrite (map (\<lambda>(k, value). sprint_v value) es)) \<in> formatCSV \<lparr>format = fm, noHeaders = True\<rparr> (DSlice [IMap r])"
  using csv_noHeaders_single [of "\<lparr>format = fm, noHeaders = True\<rparr>" "DSlice [IMap r]" r]
  by (auto intro: range_values.intros)

text \<open>
  C4. With headers suppressed, \<open>formatCSV\<close> builds each row by ranging over the record, a
  Go map, so the order of the values is the runtime's choice: the one-record list
  \<open>[{a: 1, b: 2}]\<close> can be written as \<open>1,2\<close> and as \<open>2,1\<close>. Two renderings of the same
  input need not agree, and the column order is not fixed.
\<close>

theorem C4_csv_noHeaders_two_outcomes:
  "Inr ''1,2\<newline>'' \<in> formatCSV \<lparr>format = FormatCSV, noHeaders = True\<rparr>
      (DSlice [IMap [(''a'', VInt 1), (''b'', VInt 2)]])
   \<and> Inr ''2,1\<newline>'' \<in> formatCSV \<lparr>format = FormatCSV, noHeaders = True\<rparr>
      (DSlice [IMap [(''a'', VInt 1), (''b'', VInt 2)]])"
  using csv_noHeaders_order [of "[(''a'', VInt 1), (''b'', VInt 2)]" "[(''a'', VInt 1), (''b'', VInt 2)]" FormatCSV]
    csv_noHeaders_order [of "[(''b'', VInt 2), (''a'', VInt 1)]" "[(''a'', VInt 1), (''b'', VInt 2)]" FormatCSV]
  by (simp add: csvWrite_def csvField_def fieldNeedsQuotes_def int_to_string_def nat_to_string.simps digit_char_def)




end
